theory Spec2Isabelle
  imports Complex_Main "HOL-Library.Word"
begin

section \<open>Conventions of the embedding\<close>

text \<open>
  The repository is a TypeScript storefront on a hosted backend. The stores and helpers
  below are embedded as pure functions on explicit state:
  \<^item> a JavaScript \<open>number\<close> is an exact \<^typ>\<open>real\<close> (rounding of doubles, NaN and
    infinities are outside the model); counts that the platform defines as unsigned
    integers (\<open>File.size\<close>, \<open>Date.now()\<close>, image dimensions) are \<^typ>\<open>nat\<close>;
  \<^item> an optional or nullable field is an \<open>option\<close>;
  \<^item> what the backend answers to a query is a parameter of the function that awaits it;
  \<^item> record fields keep the source's names, with a prefix where two interfaces share a
    field name or the name is a HOL constant (\<open>id\<close>, \<open>name\<close>, \<open>size\<close>).
\<close>

subsection \<open>Template literals\<close>

text \<open>\<open>`${n}`\<close> for a non-negative integer \<open>n\<close>: its decimal digits.\<close>

definition digit_char :: "nat \<Rightarrow> char" where
  "digit_char d = char_of (48 + d)"

function string_of_nat :: "nat \<Rightarrow> string" where
  "string_of_nat n =
     (if n < 10 then [digit_char n] else string_of_nat (n div 10) @ [digit_char (n mod 10)])"
  by pat_completeness auto
termination
  by (relation "measure (\<lambda>n. n)") auto

declare string_of_nat.simps [simp del]

section \<open>Cart store (src/stores/cartStore.ts)\<close>

text \<open>
  \<open>interface CartItem\<close>: \<open>id\<close> is \<open>item_id\<close>, \<open>name\<close> is \<open>item_name\<close>.
\<close>

record cart_item =
  item_id :: string
  product_id :: string
  item_name :: string
  price :: real
  quantity :: real
  image_url :: "string option"
  variant_id :: "string option"
  variant_name :: "string option"

text \<open>
  The \<open>product: any\<close> argument of \<open>addItem\<close>, with the four properties the function
  reads: \<open>id\<close>, \<open>name\<close>, \<open>price\<close> and \<open>media?.[0]?.url\<close>. A media entry is a
  \<open>product_media\<close> row with the two columns the stores select.
\<close>

record product_media =
  url :: "string option"
  is_primary :: "bool option"

record product =
  prod_id :: string
  prod_name :: string
  prod_price :: real
  prod_media :: "product_media list option"

text \<open>The data part of \<open>CartState\<close>.\<close>

record cart_state =
  items :: "cart_item list"
  isLoading :: bool

definition initial_cart :: cart_state where
  "initial_cart = \<lparr>items = [], isLoading = False\<rparr>"

text \<open>
  Every action updates the local store with one synchronous \<open>set\<close> and only then awaits
  the analytics call and the mirroring of the change to the server. Those later steps
  never call \<open>set\<close> and their failures are caught and logged, so the local state an
  action leaves is the one computed here.
\<close>

definition removeItem :: "string \<Rightarrow> cart_state \<Rightarrow> cart_state" where
  "removeItem productId st =
     st\<lparr>items := filter (\<lambda>item. product_id item \<noteq> productId) (items st)\<rparr>"

definition updateQuantity :: "string \<Rightarrow> real \<Rightarrow> cart_state \<Rightarrow> cart_state" where
  "updateQuantity productId qty st =
     (if qty \<le> 0 then removeItem productId st
      else st\<lparr>items :=
             map (\<lambda>item. if product_id item = productId then item\<lparr>quantity := qty\<rparr> else item)
               (items st)\<rparr>)"

text \<open>\<open>product.media?.[0]?.url\<close>\<close>

definition first_media_url :: "product \<Rightarrow> string option" where
  "first_media_url p =
     (case prod_media p of
        None \<Rightarrow> None
      | Some [] \<Rightarrow> None
      | Some (m # _) \<Rightarrow> url m)"

definition new_item :: "nat \<Rightarrow> product \<Rightarrow> real \<Rightarrow> cart_item" where
  "new_item now p qty =
     \<lparr>item_id = prod_id p @ ''-'' @ string_of_nat now,
      product_id = prod_id p,
      item_name = prod_name p,
      price = prod_price p,
      quantity = qty,
      image_url = first_media_url p,
      variant_id = None,
      variant_name = None\<rparr>"

text \<open>
  \<open>now\<close> is the value of \<open>Date.now()\<close> during the call; a caller that omits the
  quantity passes 1.
\<close>

definition addItem :: "nat \<Rightarrow> product \<Rightarrow> real \<Rightarrow> cart_state \<Rightarrow> cart_state" where
  "addItem now p qty st =
     (case find (\<lambda>item. product_id item = prod_id p) (items st) of
        Some existingItem \<Rightarrow> updateQuantity (prod_id p) (quantity existingItem + qty) st
      | None \<Rightarrow> st\<lparr>items := items st @ [new_item now p qty]\<rparr>)"

definition clearCart :: "cart_state \<Rightarrow> cart_state" where
  "clearCart st = st\<lparr>items := []\<rparr>"

definition getTotalItems :: "cart_state \<Rightarrow> real" where
  "getTotalItems st = foldl (\<lambda>total item. total + quantity item) 0 (items st)"

definition getTotalPrice :: "cart_state \<Rightarrow> real" where
  "getTotalPrice st = foldl (\<lambda>total item. total + price item * quantity item) 0 (items st)"


subsection \<open>Sequences of cart actions\<close>

text \<open>One \<open>addItem\<close> call: the clock value, the product object passed, the quantity.\<close>

type_synonym add_call = "nat \<times> product \<times> real"

definition call_id :: "add_call \<Rightarrow> string" where
  "call_id c = (case c of (now, p, qty) \<Rightarrow> prod_id p)"

definition call_qty :: "add_call \<Rightarrow> real" where
  "call_qty c = (case c of (now, p, qty) \<Rightarrow> qty)"

definition add_all :: "add_call list \<Rightarrow> cart_state" where
  "add_all calls = foldl (\<lambda>st (now, p, qty). addItem now p qty st) initial_cart calls"

text \<open>
  The price a product id had in the first call of the sequence that named it (0 when no
  call names it).
\<close>

definition first_price :: "add_call list \<Rightarrow> string \<Rightarrow> real" where
  "first_price calls pid =
     (case find (\<lambda>(now, p, qty). prod_id p = pid) calls of
        None \<Rightarrow> 0
      | Some (now, p, qty) \<Rightarrow> prod_price p)"

datatype cart_op =
    AddItem nat product real
  | UpdateQuantity string real
  | RemoveItem string
  | ClearCart

fun apply_cart_op :: "cart_state \<Rightarrow> cart_op \<Rightarrow> cart_state" where
  "apply_cart_op st (AddItem now p qty) = addItem now p qty st"
| "apply_cart_op st (UpdateQuantity productId qty) = updateQuantity productId qty st"
| "apply_cart_op st (RemoveItem productId) = removeItem productId st"
| "apply_cart_op st ClearCart = clearCart st"

definition run_cart_ops :: "cart_op list \<Rightarrow> cart_state" where
  "run_cart_ops ops = foldl apply_cart_op initial_cart ops"

text \<open>
  The invariant carried along a sequence of \<open>addItem\<close> calls with positive quantities:
  one line per product id named so far, each with a positive quantity and the price of
  the first call for its product, and the two running sums.
\<close>

definition adds_inv :: "add_call list \<Rightarrow> cart_item list \<Rightarrow> bool" where
  "adds_inv cs xs \<longleftrightarrow>
     distinct (map product_id xs) \<and>
     product_id ` set xs = call_id ` set cs \<and>
     (\<forall>item \<in> set xs. 0 < quantity item \<and> price item = first_price cs (product_id item)) \<and>
     sum_list (map quantity xs) = sum_list (map call_qty cs) \<and>
     sum_list (map (\<lambda>item. price item * quantity item) xs)
       = sum_list (map (\<lambda>c. first_price cs (call_id c) * call_qty c) cs)"

subsection \<open>Loading the server-side cart\<close>

text \<open>
  The outcome of an awaited promise: rejected with a message (the \<open>await\<close> throws) or
  resolved with a value.
\<close>

datatype 'a awaited = Rejected string | Resolved 'a

text \<open>
  The shape the nested \<open>select\<close> of \<open>loadCart\<close> asks for: the cart row, its
  \<open>cart_items\<close> rows, and for each the joined \<open>products\<close> row with its media rows. A
  joined product the caller may not read arrives as \<open>null\<close>.
\<close>

record joined_product =
  products_name :: string
  joined_media :: "product_media list option"

record cart_items_row =
  row_id :: string
  row_product_id :: string
  row_quantity :: real
  unit_price :: real
  products :: "joined_product option"

record shopping_cart_row =
  cart_id :: string
  cart_items :: "cart_items_row list option"

record user =
  user_id :: string
  email :: "string option"

text \<open>\<open>item.products.product_media?.find((m) => m.is_primary)?.url\<close>\<close>

definition primary_media_url :: "joined_product \<Rightarrow> string option" where
  "primary_media_url pr =
     (case joined_media pr of
        None \<Rightarrow> None
      | Some ms \<Rightarrow>
          (case find (\<lambda>m. is_primary m = Some True) ms of
             None \<Rightarrow> None
           | Some m \<Rightarrow> url m))"

text \<open>
  The arrow function mapped over \<open>cart.cart_items\<close>. Reading \<open>item.products.name\<close> of a
  row whose \<open>products\<close> is \<open>null\<close> throws a TypeError: the result is \<open>None\<close>.
\<close>

definition cart_item_of_row :: "cart_items_row \<Rightarrow> cart_item option" where
  "cart_item_of_row r =
     (case products r of
        None \<Rightarrow> None
      | Some pr \<Rightarrow>
          Some \<lparr>item_id = row_id r,
                product_id = row_product_id r,
                item_name = products_name pr,
                price = unit_price r,
                quantity = row_quantity r,
                image_url = primary_media_url pr,
                variant_id = None,
                variant_name = None\<rparr>)"

text \<open>\<open>Array.prototype.map\<close>, abandoned at the first row whose callback throws.\<close>

fun map_rows :: "cart_items_row list \<Rightarrow> cart_item list option" where
  "map_rows [] = Some []"
| "map_rows (r # rs) =
     (case cart_item_of_row r of
        None \<Rightarrow> None
      | Some item \<Rightarrow> (case map_rows rs of None \<Rightarrow> None | Some its \<Rightarrow> Some (item # its)))"

text \<open>
  \<open>usr\<close> is \<open>useAuthStore.getState().user\<close>, \<open>response\<close> the outcome of the awaited
  \<open>maybeSingle()\<close> query, of which only \<open>data\<close> is read. An exception inside \<open>try\<close> is
  caught and logged; \<open>finally\<close> resets \<open>isLoading\<close>.
\<close>

definition loadCart ::
  "user option \<Rightarrow> shopping_cart_row option awaited \<Rightarrow> cart_state \<Rightarrow> cart_state" where
  "loadCart usr response st =
     (case usr of
        None \<Rightarrow> st
      | Some u \<Rightarrow>
          (let st1 = st\<lparr>isLoading := True\<rparr>;
               st2 =
                 (case response of
                    Rejected msg \<Rightarrow> st1
                  | Resolved cart \<Rightarrow>
                      (case cart of
                         None \<Rightarrow> st1
                       | Some c \<Rightarrow>
                           (case cart_items c of
                              None \<Rightarrow> st1
                            | Some rows \<Rightarrow>
                                (case map_rows rows of
                                   None \<Rightarrow> st1
                                 | Some its \<Rightarrow> st1\<lparr>items := its\<rparr>))))
           in st2\<lparr>isLoading := False\<rparr>))"

section \<open>Auth store (src/stores/authStore.ts)\<close>

record auth_state =
  auth_user :: "user option"
  auth_isLoading :: bool
  isAdmin :: bool

text \<open>The \<open>{ data, error }\<close> object a query resolves to.\<close>

record 'a query_result =
  q_data :: "'a option"
  q_error :: "string option"

text \<open>\<open>select('is_admin')\<close> on \<open>user_profiles\<close>; the column is \<open>boolean DEFAULT false\<close>.\<close>

record user_profiles_row =
  is_admin :: "bool option"

text \<open>
  The body of the \<open>try\<close> block of \<open>checkAdminStatus\<close>: \<open>Inl\<close> is an exception leaving the
  block, which only the rejected query raises.
\<close>

definition checkAdminStatus_try ::
  "user_profiles_row query_result awaited \<Rightarrow> auth_state \<Rightarrow> string + auth_state" where
  "checkAdminStatus_try response st =
     (case response of
        Rejected msg \<Rightarrow> Inl msg
      | Resolved r \<Rightarrow>
          (case q_error r of
             Some e \<Rightarrow> Inr (st\<lparr>isAdmin := False\<rparr>)
           | None \<Rightarrow>
               Inr (st\<lparr>isAdmin :=
                      (case q_data r of
                         None \<Rightarrow> False
                       | Some row \<Rightarrow> (case is_admin row of Some b \<Rightarrow> b | None \<Rightarrow> False))\<rparr>)))"

text \<open>
  The whole function: \<open>Inl\<close> would be a rejected promise, \<open>Inr\<close> is the store after the
  call. The \<open>catch\<close> clause turns every exception of the block into \<open>isAdmin = false\<close>.
\<close>

definition checkAdminStatus ::
  "user_profiles_row query_result awaited \<Rightarrow> auth_state \<Rightarrow> string + auth_state" where
  "checkAdminStatus response st =
     (case auth_user st of
        None \<Rightarrow> Inr st
      | Some u \<Rightarrow>
          (case checkAdminStatus_try response st of
             Inl exn \<Rightarrow> Inr (st\<lparr>isAdmin := False\<rparr>)
           | Inr st' \<Rightarrow> Inr st'))"

section \<open>Image pipeline (src/lib: imageUtils, debugUtils.ts, supabaseStorage.ts)\<close>

subsection \<open>Configuration and validation\<close>

definition MAX_FILE_SIZE :: nat where
  "MAX_FILE_SIZE = 5 * 1024 * 1024"

definition ALLOWED_TYPES :: "string list" where
  "ALLOWED_TYPES = [''image/jpeg'', ''image/png'', ''image/webp'']"

text \<open>The three properties of a \<open>File\<close> the pipeline reads.\<close>

record js_file =
  file_name :: string
  file_size :: nat
  file_type :: string

text \<open>\<open>Array.prototype.join\<close>\<close>

fun join :: "string \<Rightarrow> string list \<Rightarrow> string" where
  "join sep [] = []"
| "join sep [x] = x"
| "join sep (x # y # ys) = x @ sep @ join sep (y # ys)"

record file_validation =
  valid :: bool
  fv_error :: "string option"

text \<open>
  \<open>validateFileUpload(file)\<close> of debugUtils.ts, as \<open>uploadProductImage\<close> calls it: without
  the optional \<open>options\<close>, so that \<open>maxSize\<close> and \<open>allowedTypes\<close> take their defaults.
\<close>

definition validateFileUpload :: "js_file \<Rightarrow> file_validation" where
  "validateFileUpload f =
     (let maxSize = 5 * 1024 * 1024;
          allowedTypes = [''image/jpeg'', ''image/png'', ''image/webp'']
      in if file_size f > maxSize
         then \<lparr>valid = False,
               fv_error = Some (''File size exceeds '' @ string_of_nat (maxSize div (1024 * 1024))
                                @ ''MB limit'')\<rparr>
         else if file_type f \<notin> set allowedTypes
         then \<lparr>valid = False,
               fv_error = Some (''File type '' @ file_type f @ '' not allowed. Allowed types: ''
                                @ join '', '' allowedTypes)\<rparr>
         else \<lparr>valid = True, fv_error = None\<rparr>)"

record image_validation =
  isValid :: bool
  iv_error :: "string option"

text \<open>\<open>validateImageFile\<close> of imageUtils.ts.\<close>

definition validateImageFile :: "js_file \<Rightarrow> image_validation" where
  "validateImageFile f =
     (if file_type f \<notin> set ALLOWED_TYPES
      then \<lparr>isValid = False,
            iv_error = Some (''Invalid file type. Allowed types: '' @ join '', '' ALLOWED_TYPES)\<rparr>
      else if file_size f > MAX_FILE_SIZE
      then \<lparr>isValid = False,
            iv_error = Some (''File too large. Maximum size: ''
                             @ string_of_nat (MAX_FILE_SIZE div (1024 * 1024)) @ ''MB'')\<rparr>
      else \<lparr>isValid = True, iv_error = None\<rparr>)"

subsection \<open>Resizing\<close>

text \<open>
  The values of the local variables \<open>width\<close> and \<open>height\<close> of \<open>img.onload\<close> after the
  \<open>if\<close>, for an image of natural size \<open>w\<close> by \<open>h\<close>.
\<close>

definition resize_dimensions :: "nat \<Rightarrow> nat \<Rightarrow> real \<Rightarrow> real \<Rightarrow> real \<times> real" where
  "resize_dimensions w h maxWidth maxHeight =
     (if real w > real h
      then (if real w > maxWidth
            then (maxWidth, (real h * maxWidth) / real w)
            else (real w, real h))
      else (if real h > maxHeight
            then ((real w * maxHeight) / real h, maxHeight)
            else (real w, real h)))"

text \<open>
  \<open>canvas.width\<close> and \<open>canvas.height\<close> are \<open>unsigned long\<close> attributes: assigning a
  number stores its integer part (for the non-negative values below \<open>2^31\<close> that occur
  here, the floor).
\<close>

definition to_unsigned_long :: "real \<Rightarrow> nat" where
  "to_unsigned_long x = nat \<lfloor>x\<rfloor>"

text \<open>
  The size of the canvas that \<open>resizeImage\<close> draws on and encodes, hence the pixel
  dimensions of the blob it resolves to. Whether the image decodes and the encoder
  yields a blob is the platform's answer and a parameter of \<open>uploadProductImage\<close>.
\<close>

definition resizeImage :: "nat \<Rightarrow> nat \<Rightarrow> real \<Rightarrow> real \<Rightarrow> nat \<times> nat" where
  "resizeImage w h maxWidth maxHeight =
     (case resize_dimensions w h maxWidth maxHeight of
        (width, height) \<Rightarrow> (to_unsigned_long width, to_unsigned_long height))"

subsection \<open>Upload\<close>

record upload_result =
  result_url :: string
  result_path :: string
  result_error :: "string option"

text \<open>The operations of an upload that leave the validation code, in order.\<close>

datatype io_event = Resize_image | Storage_upload string

text \<open>The bucket's object paths and the operations performed so far.\<close>

record storage_world =
  objects :: "string list"
  events :: "io_event list"

text \<open>
  \<open>storage.upload\<close> resolves to \<open>{ data, error }\<close> with exactly one of the two set:
  \<open>error.message\<close> or \<open>data.path\<close>.
\<close>

datatype upload_response = Upload_error string | Upload_data string

text \<open>
  What the platform answers during one call: the clock, the outcome of \<open>resizeImage\<close>
  (the blob, by its size), the outcome of \<open>storage.upload\<close> and \<open>getPublicUrl\<close>. The
  logger, the performance monitor and the optional progress callback have no part in the
  result and are left out.
\<close>

record upload_env =
  env_now :: nat
  env_resize :: "nat awaited"
  env_upload :: "upload_response awaited"
  env_public_url :: "string \<Rightarrow> string"

definition failed_upload :: "string \<Rightarrow> upload_result" where
  "failed_upload msg = \<lparr>result_url = [], result_path = [], result_error = Some msg\<rparr>"

definition uploadProductImage ::
  "upload_env \<Rightarrow> js_file \<Rightarrow> string \<Rightarrow> nat \<Rightarrow> storage_world \<Rightarrow> upload_result \<times> storage_world" where
  "uploadProductImage env f productId index w =
     (let fileValidation = validateFileUpload f in
      if \<not> valid fileValidation
      then (failed_upload (''File validation failed: '' @
              (case fv_error fileValidation of None \<Rightarrow> ''undefined'' | Some e \<Rightarrow> e)), w)
      else
        let validation = validateImageFile f in
        if \<not> isValid validation
        then (\<lparr>result_url = [], result_path = [], result_error = iv_error validation\<rparr>, w)
        else
          (case env_resize env of
             Rejected msg \<Rightarrow> (failed_upload msg, w\<lparr>events := events w @ [Resize_image]\<rparr>)
           | Resolved resizedBlob \<Rightarrow>
               (let filePath = ''products/'' @ productId @ ''-'' @ string_of_nat index @ ''-''
                                @ string_of_nat (env_now env) @ ''.jpg'';
                    w1 = w\<lparr>events := events w @ [Resize_image, Storage_upload filePath]\<rparr>
                in case env_upload env of
                     Rejected msg \<Rightarrow> (failed_upload msg, w1)
                   | Resolved (Upload_error msg) \<Rightarrow> (failed_upload msg, w1)
                   | Resolved (Upload_data path) \<Rightarrow>
                       (\<lparr>result_url = env_public_url env path, result_path = path,
                         result_error = None\<rparr>,
                        w1\<lparr>objects := objects w1 @ [filePath]\<rparr>))))"

subsection \<open>The URL cache\<close>

text \<open>
  A JavaScript \<open>Map<string, string>\<close>: its entries in insertion order, keys distinct.
  \<open>set\<close> on a present key replaces the value in place; on an absent key it appends.
\<close>

type_synonym js_map = "(string \<times> string) list"

fun map_set :: "string \<Rightarrow> string \<Rightarrow> js_map \<Rightarrow> js_map" where
  "map_set k v [] = [(k, v)]"
| "map_set k v ((k', v') # m) = (if k' = k then (k, v) # m else (k', v') # map_set k v m)"

definition map_delete :: "string \<Rightarrow> js_map \<Rightarrow> js_map" where
  "map_delete k m = filter (\<lambda>(k', v'). k' \<noteq> k) m"

text \<open>\<open>keys().next().value\<close>: the oldest key, \<open>undefined\<close> for the empty map.\<close>

definition first_key :: "js_map \<Rightarrow> string option" where
  "first_key m = (case m of [] \<Rightarrow> None | (k, v) # _ \<Rightarrow> Some k)"

definition imageCache_get :: "string \<Rightarrow> js_map \<Rightarrow> string option" where
  "imageCache_get key cache = map_of cache key"

definition imageCache_set :: "string \<Rightarrow> string \<Rightarrow> js_map \<Rightarrow> js_map" where
  "imageCache_set key val cache =
     (let cache' =
            (if length cache > 100
             then (case first_key cache of None \<Rightarrow> cache | Some firstKey \<Rightarrow> map_delete firstKey cache)
             else cache)
      in map_set key val cache')"

definition imageCache_clear :: "js_map \<Rightarrow> js_map" where
  "imageCache_clear cache = []"

datatype cache_op = Cache_set string string | Cache_get string | Cache_clear

fun apply_cache_op :: "js_map \<Rightarrow> cache_op \<Rightarrow> js_map" where
  "apply_cache_op cache (Cache_set key val) = imageCache_set key val cache"
| "apply_cache_op cache (Cache_get key) = cache"
| "apply_cache_op cache Cache_clear = imageCache_clear cache"

definition run_cache_ops :: "cache_op list \<Rightarrow> js_map" where
  "run_cache_ops ops = foldl apply_cache_op [] ops"

section \<open>Analytics counter (supabase/migrations/20250630011921_cold_sun.sql)\<close>

text \<open>
  A PostgreSQL \<open>integer\<close> is a signed 32-bit value, read with \<^const>\<open>sint\<close>. The six
  counters of \<open>product_analytics\<close> are declared \<open>integer DEFAULT 0\<close> without \<open>NOT NULL\<close>,
  so a column holds a value or \<open>NULL\<close> (\<open>None\<close>). Of the other columns the row keeps
  \<open>revenue\<close>; \<open>id\<close> and \<open>created_at\<close> are generated and play no part.
\<close>

type_synonym int4 = "32 word"

record product_analytics_row =
  views :: "int4 option"
  likes :: "int4 option"
  saves :: "int4 option"
  shares :: "int4 option"
  cart_adds :: "int4 option"
  purchases :: "int4 option"
  revenue :: "rat option"

text \<open>
  The table, keyed by \<open>(product_id, date)\<close> as \<open>UNIQUE(product_id, date)\<close> makes it for
  rows with a product id; dates are day numbers.
\<close>

type_synonym product_analytics = "string \<times> nat \<rightharpoonup> product_analytics_row"

datatype sql_error = Integer_out_of_range

text \<open>
  \<open>+\<close> on \<open>integer\<close>: \<open>NULL\<close> if an operand is \<open>NULL\<close>, the error \<open>integer out of range\<close>
  if the sum leaves the 32-bit range.
\<close>

definition int4pl :: "int4 option \<Rightarrow> int4 option \<Rightarrow> sql_error + int4 option" where
  "int4pl a b =
     (case a of
        None \<Rightarrow> Inr None
      | Some x \<Rightarrow>
          (case b of
             None \<Rightarrow> Inr None
           | Some y \<Rightarrow>
               if - (2 ^ 31) \<le> sint x + sint y \<and> sint x + sint y < 2 ^ 31
               then Inr (Some (x + y))
               else Inl Integer_out_of_range))"

text \<open>\<open>CASE WHEN p_metric = name THEN p_increment ELSE 0 END\<close>\<close>

definition metric_case :: "string \<Rightarrow> string \<Rightarrow> int4 \<Rightarrow> int4 option" where
  "metric_case p_metric name p_increment = Some (if p_metric = name then p_increment else 0)"

text \<open>
  \<open>INSERT ... ON CONFLICT (product_id, date) DO UPDATE SET ...\<close> with \<open>current_date\<close> the
  value of \<open>CURRENT_DATE\<close>. An error aborts the statement and leaves the table as it was.
  The arguments are the function's parameters, none of them \<open>NULL\<close>; a caller that
  omits \<open>p_increment\<close> passes 1.
\<close>

definition update_product_analytics ::
  "nat \<Rightarrow> string \<Rightarrow> string \<Rightarrow> int4 \<Rightarrow> product_analytics \<Rightarrow> sql_error + product_analytics" where
  "update_product_analytics current_date p_product_id p_metric p_increment tbl =
     (case tbl (p_product_id, current_date) of
        None \<Rightarrow>
          Inr (tbl((p_product_id, current_date) \<mapsto>
                 \<lparr>views = metric_case p_metric ''views'' p_increment,
                  likes = metric_case p_metric ''likes'' p_increment,
                  saves = metric_case p_metric ''saves'' p_increment,
                  shares = metric_case p_metric ''shares'' p_increment,
                  cart_adds = metric_case p_metric ''cart_adds'' p_increment,
                  purchases = metric_case p_metric ''purchases'' p_increment,
                  revenue = Some 0\<rparr>))
      | Some r \<Rightarrow>
          (case int4pl (views r) (metric_case p_metric ''views'' p_increment) of
             Inl e \<Rightarrow> Inl e
           | Inr v \<Rightarrow>
          (case int4pl (likes r) (metric_case p_metric ''likes'' p_increment) of
             Inl e \<Rightarrow> Inl e
           | Inr l \<Rightarrow>
          (case int4pl (saves r) (metric_case p_metric ''saves'' p_increment) of
             Inl e \<Rightarrow> Inl e
           | Inr s \<Rightarrow>
          (case int4pl (shares r) (metric_case p_metric ''shares'' p_increment) of
             Inl e \<Rightarrow> Inl e
           | Inr sh \<Rightarrow>
          (case int4pl (cart_adds r) (metric_case p_metric ''cart_adds'' p_increment) of
             Inl e \<Rightarrow> Inl e
           | Inr c \<Rightarrow>
          (case int4pl (purchases r) (metric_case p_metric ''purchases'' p_increment) of
             Inl e \<Rightarrow> Inl e
           | Inr pu \<Rightarrow>
               Inr (tbl((p_product_id, current_date) \<mapsto>
                      r\<lparr>views := v, likes := l, saves := s, shares := sh,
                        cart_adds := c, purchases := pu\<rparr>)))))))))"

text \<open>The six metric names, and the column each one names.\<close>

definition metric_names :: "string list" where
  "metric_names = [''views'', ''likes'', ''saves'', ''shares'', ''cart_adds'', ''purchases'']"

definition get_metric :: "string \<Rightarrow> product_analytics_row \<Rightarrow> int4 option" where
  "get_metric m r =
     (if m = ''views'' then views r
      else if m = ''likes'' then likes r
      else if m = ''saves'' then saves r
      else if m = ''shares'' then shares r
      else if m = ''cart_adds'' then cart_adds r
      else purchases r)"

definition set_metric :: "string \<Rightarrow> int4 option \<Rightarrow> product_analytics_row \<Rightarrow> product_analytics_row" where
  "set_metric m x r =
     (if m = ''views'' then r\<lparr>views := x\<rparr>
      else if m = ''likes'' then r\<lparr>likes := x\<rparr>
      else if m = ''saves'' then r\<lparr>saves := x\<rparr>
      else if m = ''shares'' then r\<lparr>shares := x\<rparr>
      else if m = ''cart_adds'' then r\<lparr>cart_adds := x\<rparr>
      else r\<lparr>purchases := x\<rparr>)"

definition zero_row :: product_analytics_row where
  "zero_row = \<lparr>views = Some 0, likes = Some 0, saves = Some 0, shares = Some 0,
               cart_adds = Some 0, purchases = Some 0, revenue = Some 0\<rparr>"

text \<open>Two calls in a row; the second runs only if the first succeeded.\<close>

definition update_twice ::
  "nat \<Rightarrow> string \<Rightarrow> string \<Rightarrow> int4 \<Rightarrow> product_analytics \<Rightarrow> sql_error + product_analytics" where
  "update_twice current_date p_product_id p_metric p_increment tbl =
     (case update_product_analytics current_date p_product_id p_metric p_increment tbl of
        Inl e \<Rightarrow> Inl e
      | Inr tbl' \<Rightarrow> update_product_analytics current_date p_product_id p_metric p_increment tbl')"

section \<open>Example data\<close>

definition product_A :: product where
  "product_A = \<lparr>prod_id = ''A'', prod_name = ''Cotton saree'', prod_price = 10,
                 prod_media = Some [\<lparr>url = Some ''https://cdn.example/a.jpg'', is_primary = Some True\<rparr>]\<rparr>"

definition product_B :: product where
  "product_B = \<lparr>prod_id = ''B'', prod_name = ''Silk scarf'', prod_price = 5, prod_media = None\<rparr>"

definition line_A :: cart_item where
  "line_A = \<lparr>item_id = ''A-1000'', product_id = ''A'', item_name = ''Cotton saree'', price = 10,
              quantity = 1, image_url = None, variant_id = None, variant_name = None\<rparr>"


definition line_B :: cart_item where
  "line_B = \<lparr>item_id = ''B-2000'', product_id = ''B'', item_name = ''Silk scarf'', price = 5,
              quantity = 3, image_url = None, variant_id = None, variant_name = None\<rparr>"

definition user_1 :: user where
  "user_1 = \<lparr>user_id = ''u1'', email = Some ''u1@example.org''\<rparr>"

definition server_row_1 :: cart_items_row where
  "server_row_1 =
     \<lparr>row_id = ''ci-1'', row_product_id = ''B'', row_quantity = 4, unit_price = 5,
      products = Some \<lparr>products_name = ''Silk scarf'',
        joined_media = Some [\<lparr>url = Some ''https://cdn.example/b0.jpg'', is_primary = Some False\<rparr>,
                             \<lparr>url = Some ''https://cdn.example/b1.jpg'', is_primary = Some True\<rparr>]\<rparr>\<rparr>"

definition png_6MB :: js_file where
  "png_6MB = \<lparr>file_name = ''big.png'', file_size = 6 * 1024 * 1024, file_type = ''image/png''\<rparr>"

definition jpeg_1MB :: js_file where
  "jpeg_1MB = \<lparr>file_name = ''photo.jpg'', file_size = 1024 * 1024, file_type = ''image/jpeg''\<rparr>"

definition env_ok :: upload_env where
  "env_ok = \<lparr>env_now = 1700000000000, env_resize = Resolved 204800,
             env_upload = Resolved (Upload_data ''products/p1-0-1700000000000.jpg''),
             env_public_url = (\<lambda>path. ''https://storage.example/product-images/'' @ path)\<rparr>"

definition empty_world :: storage_world where
  "empty_world = \<lparr>objects = [], events = []\<rparr>"

text \<open>One hundred and one \<open>set\<close> calls with the keys \<open>0\<close>, \<open>1\<close>, ..., \<open>100\<close>.\<close>

definition fill_101 :: "cache_op list" where
  "fill_101 = map (\<lambda>i. Cache_set (string_of_nat i) ''u'') [0 ..< 101]"

definition row_5 :: product_analytics_row where
  "row_5 = zero_row\<lparr>views := Some 5, likes := Some 7\<rparr>"

definition signed_in_admin :: auth_state where
  "signed_in_admin = \<lparr>auth_user = Some user_1, auth_isLoading = False, isAdmin = True\<rparr>"

section \<open>Properties of the cart store\<close>

subsection \<open>Auxiliary facts\<close>

lemma foldl_plus_sum_list:
  "foldl (\<lambda>total x. total + f x) a xs = a + sum_list (map f xs)" for a :: real
  by (induction xs arbitrary: a) simp_all

lemma getTotalItems_sum: "getTotalItems st = sum_list (map quantity (items st))"
  by (simp add: getTotalItems_def foldl_plus_sum_list)

lemma getTotalPrice_sum:
  "getTotalPrice st = sum_list (map (\<lambda>item. price item * quantity item) (items st))"
  by (simp add: getTotalPrice_def foldl_plus_sum_list)

lemma items_removeItem [simp]:
  "items (removeItem pid st) = filter (\<lambda>item. product_id item \<noteq> pid) (items st)"
  by (simp add: removeItem_def)

lemma items_updateQuantity_pos:
  "0 < qty \<Longrightarrow> items (updateQuantity pid qty st) =
     map (\<lambda>item. if product_id item = pid then item\<lparr>quantity := qty\<rparr> else item) (items st)"
  by (simp add: updateQuantity_def)


lemma find_product_id_None:
  "find (\<lambda>item. product_id item = pid) xs = None \<longleftrightarrow> pid \<notin> product_id ` set xs"
  by (auto simp: find_None_iff)

lemma find_product_id_Some:
  "find (\<lambda>item. product_id item = pid) xs = Some e \<Longrightarrow> e \<in> set xs \<and> product_id e = pid"
  by (auto simp: find_Some_iff)

lemma sum_quantity_update:
  "distinct (map product_id xs) \<Longrightarrow> e \<in> set xs \<Longrightarrow>
   sum_list (map (\<lambda>item. f (if product_id item = product_id e then item\<lparr>quantity := q\<rparr> else item)) xs)
     = sum_list (map f xs) - f e + f (e\<lparr>quantity := q\<rparr>)" for f :: "cart_item \<Rightarrow> real"
proof (induction xs)
  case Nil
  then show ?case by simp
next
  case (Cons x xs)
  show ?case
  proof (cases "x = e")
    case True
    with Cons.prems have "product_id e \<notin> product_id ` set xs" by auto
    then have "sum_list (map (\<lambda>item. f (if product_id item = product_id e then item\<lparr>quantity := q\<rparr> else item)) xs) = sum_list (map f xs)"
      by (intro arg_cong[where f = sum_list] map_cong) (auto simp: image_iff)
    with True show ?thesis by simp
  next
    case False
    with Cons.prems have e: "e \<in> set xs" and ne: "product_id x \<noteq> product_id e" by auto
    with Cons show ?thesis by simp
  qed
qed

lemma add_all_snoc:
  "add_all (cs @ [(now, p, qty)]) = addItem now p qty (add_all cs)"
  by (simp add: add_all_def)

lemma first_price_snoc:
  "first_price (cs @ [c]) pid =
     (if pid \<in> call_id ` set cs then first_price cs pid
      else if call_id c = pid then prod_price (fst (snd c)) else 0)"
  by (induction cs) (auto simp: first_price_def call_id_def split: prod.splits)



lemma adds_inv_step:
  assumes inv: "adds_inv cs (items st)" and pos: "0 < qty"
  shows "adds_inv (cs @ [(now, p, qty)]) (items (addItem now p qty st))"
proof -
  let ?c = "(now, p, qty)"
  let ?cs' = "cs @ [?c]"
  from inv have dist: "distinct (map product_id (items st))"
    and ids: "product_id ` set (items st) = call_id ` set cs"
    and each: "\<And>item. item \<in> set (items st) \<Longrightarrow>
                 0 < quantity item \<and> price item = first_price cs (product_id item)"
    and sumq: "sum_list (map quantity (items st)) = sum_list (map call_qty cs)"
    and sump: "sum_list (map (\<lambda>item. price item * quantity item) (items st))
                 = sum_list (map (\<lambda>c. first_price cs (call_id c) * call_qty c) cs)"
    by (auto simp: adds_inv_def)
  have old_price: "first_price ?cs' pid = first_price cs pid" if "pid \<in> call_id ` set cs" for pid
    using that by (simp add: first_price_snoc)
  have old_sum: "sum_list (map (\<lambda>c. first_price ?cs' (call_id c) * call_qty c) cs)
                   = sum_list (map (\<lambda>c. first_price cs (call_id c) * call_qty c) cs)"
    by (intro arg_cong[where f = sum_list] map_cong) (auto simp: old_price)
  show ?thesis
  proof (cases "find (\<lambda>item. product_id item = prod_id p) (items st)")
    case None
    then have fresh: "prod_id p \<notin> product_id ` set (items st)"
      by (simp add: find_product_id_None)
    then have fresh': "prod_id p \<notin> call_id ` set cs" using ids by simp
    have its: "items (addItem now p qty st) = items st @ [new_item now p qty]"
      using None by (simp add: addItem_def)
    have np: "first_price ?cs' (prod_id p) = prod_price p"
      using fresh' by (simp add: first_price_snoc call_id_def)
    have cid: "call_id ?c = prod_id p" and cq: "call_qty ?c = qty"
      by (simp_all add: call_id_def call_qty_def)
    have c1: "distinct (map product_id (items st @ [new_item now p qty]))"
      using dist fresh by (simp add: new_item_def)
    have c2: "product_id ` set (items st @ [new_item now p qty]) = call_id ` set ?cs'"
      using ids by (simp add: new_item_def cid)
    have c3: "0 < quantity item \<and> price item = first_price ?cs' (product_id item)"
      if "item \<in> set (items st @ [new_item now p qty])" for item
    proof (cases "item \<in> set (items st)")
      case True
      then have "product_id item \<in> call_id ` set cs" using ids by force
      then show ?thesis using each[OF True] by (simp add: old_price)
    next
      case False
      with that have "item = new_item now p qty" by simp
      then show ?thesis using pos np by (simp add: new_item_def)
    qed
    have c4: "sum_list (map quantity (items st @ [new_item now p qty])) = sum_list (map call_qty ?cs')"
      using sumq by (simp add: new_item_def cq)
    have c5: "sum_list (map (\<lambda>item. price item * quantity item) (items st @ [new_item now p qty]))
                = sum_list (map (\<lambda>c. first_price ?cs' (call_id c) * call_qty c) ?cs')"
      using sump old_sum np by (simp add: new_item_def cid cq)
    show ?thesis
      unfolding adds_inv_def its using c1 c2 c3 c4 c5 by blast
  next
    case (Some e)
    then have e: "e \<in> set (items st)" and pe: "product_id e = prod_id p"
      using find_product_id_Some by blast+
    from each[OF e] have qe: "0 < quantity e" and prc: "price e = first_price cs (prod_id p)"
      by (simp_all add: pe)
    have inc: "prod_id p \<in> call_id ` set cs" using e pe ids by force
    let ?q = "quantity e + qty"
    have qpos: "0 < ?q" using qe pos by simp
    have its: "items (addItem now p qty st) =
        map (\<lambda>item. if product_id item = product_id e then item\<lparr>quantity := ?q\<rparr> else item) (items st)"
      using Some qpos by (simp add: addItem_def items_updateQuantity_pos pe)
    have s1: "sum_list (map quantity (items (addItem now p qty st))) = sum_list (map quantity (items st)) + qty"
      unfolding its using sum_quantity_update[OF dist e, of quantity ?q]
      by (simp add: o_def if_distrib[of quantity] cong: if_cong)
    have s2: "sum_list (map (\<lambda>item. price item * quantity item) (items (addItem now p qty st)))
                = sum_list (map (\<lambda>item. price item * quantity item) (items st)) + price e * qty"
      unfolding its using sum_quantity_update[OF dist e, of "\<lambda>item. price item * quantity item" ?q]
      by (simp add: o_def algebra_simps)
    have np: "first_price ?cs' (prod_id p) = first_price cs (prod_id p)"
      using inc by (rule old_price)
    have d': "map product_id (items (addItem now p qty st)) = map product_id (items st)"
      unfolding its by (simp add: o_def if_distrib[of product_id] cong: if_cong)
    have set': "product_id ` set (items (addItem now p qty st)) = product_id ` set (items st)"
      using d' by (metis set_map)
    have each': "0 < quantity item \<and> price item = first_price ?cs' (product_id item)"
      if "item \<in> set (items (addItem now p qty st))" for item
    proof -
      from that obtain old where o: "old \<in> set (items st)"
        and eq: "item = (if product_id old = product_id e then old\<lparr>quantity := ?q\<rparr> else old)"
        unfolding its by auto
      have "product_id old \<in> call_id ` set cs" using o ids by force
      then show ?thesis using each[OF o] eq qpos by (auto simp: old_price)
    qed
    have cid: "call_id ?c = prod_id p" and cq: "call_qty ?c = qty"
      by (simp_all add: call_id_def call_qty_def)
    have c1: "distinct (map product_id (items (addItem now p qty st)))"
      using dist d' by simp
    have c2: "product_id ` set (items (addItem now p qty st)) = call_id ` set ?cs'"
      using set' ids inc by (auto simp: cid)
    have c4: "sum_list (map quantity (items (addItem now p qty st))) = sum_list (map call_qty ?cs')"
      using s1 sumq by (simp add: cq)
    have c5: "sum_list (map (\<lambda>item. price item * quantity item) (items (addItem now p qty st)))
                = sum_list (map (\<lambda>c. first_price ?cs' (call_id c) * call_qty c) ?cs')"
      using s2 sump old_sum np prc by (simp add: cid cq)
    show ?thesis
      unfolding adds_inv_def using c1 c2 each' c4 c5 by blast
  qed
qed


lemma adds_inv_add_all:
  "\<forall>c \<in> set calls. 0 < call_qty c \<Longrightarrow> adds_inv calls (items (add_all calls))"
proof (induction calls rule: rev_induct)
  case Nil
  show ?case by (simp add: adds_inv_def add_all_def initial_cart_def)
next
  case (snoc c cs)
  obtain now p qty where c: "c = (now, p, qty)" by (cases c) auto
  from snoc.prems have "0 < qty" and "\<forall>c \<in> set cs. 0 < call_qty c"
    by (simp_all add: c call_qty_def)
  with snoc.IH have "adds_inv (cs @ [(now, p, qty)]) (items (addItem now p qty (add_all cs)))"
    by (intro adds_inv_step) simp_all
  then show ?case by (simp add: c add_all_snoc)
qed


subsection \<open>Totals after a sequence of additions\<close>

text \<open>
  Claim C2, as amended. For every sequence of \<open>addItem\<close> calls on the empty cart in which
  every quantity is positive: \<open>getTotalItems\<close> is the sum of the quantities added,
  \<open>getTotalPrice\<close> is the sum over the calls of quantity times the price the product had
  in the first call that named it, and that first price is the price of every cart line,
  whatever price a later call passes.
\<close>

theorem addItem_sequence_totals:
  assumes "\<forall>c \<in> set calls. 0 < call_qty c"
  shows "getTotalItems (add_all calls) = sum_list (map call_qty calls) \<and>
         getTotalPrice (add_all calls)
           = sum_list (map (\<lambda>c. first_price calls (call_id c) * call_qty c) calls) \<and>
         getTotalPrice (add_all calls)
           = sum_list (map (\<lambda>item. price item * quantity item) (items (add_all calls))) \<and>
         (\<forall>item \<in> set (items (add_all calls)).
            price item = first_price calls (product_id item))"
  using adds_inv_add_all[OF assms]
  by (simp add: adds_inv_def getTotalItems_sum getTotalPrice_sum)

text \<open>
  The scenario of the specification: 2 units of A at 10.00, then 1 unit of B at 5.00. A
  third call that passes product A with the price 12.00 adds one unit at the old 10.00.
\<close>

theorem addItem_sequence_totals_witness:
  "getTotalItems (add_all [(1000, product_A, 2), (2000, product_B, 1)]) = 3 \<and>
   getTotalPrice (add_all [(1000, product_A, 2), (2000, product_B, 1)]) = 25 \<and>
   getTotalItems (add_all [(1000, product_A, 2), (2000, product_B, 1),
                           (3000, product_A\<lparr>prod_price := 12\<rparr>, 1)]) = 4 \<and>
   getTotalPrice (add_all [(1000, product_A, 2), (2000, product_B, 1),
                           (3000, product_A\<lparr>prod_price := 12\<rparr>, 1)]) = 35"
proof -
  have pos: "\<forall>c \<in> set [(1000, product_A, 2), (2000 :: nat, product_B, 1 :: real)]. 0 < call_qty c"
    by (simp add: call_qty_def)
  have pos': "\<forall>c \<in> set [(1000, product_A, 2), (2000 :: nat, product_B, 1 :: real),
                           (3000, product_A\<lparr>prod_price := 12\<rparr>, 1)]. 0 < call_qty c"
    by (simp add: call_qty_def)
  from addItem_sequence_totals[OF pos] addItem_sequence_totals[OF pos'] show ?thesis
    by (simp add: call_qty_def call_id_def first_price_def product_A_def product_B_def)
qed

text \<open>
  Claim C2 as stated fails when a quantity is not positive: adding 1 unit of A and then
  \<open>-2\<close> units of A removes the line, so the total is 0 and not the sum \<open>-1\<close>.
\<close>

theorem addItem_sequence_totals_counterexample:
  "getTotalItems (add_all [(1000, product_A, 1), (2000, product_A, - 2)]) = 0 \<and>
   getTotalItems (add_all [(1000, product_A, 1), (2000, product_A, - 2)])
     \<noteq> sum_list (map call_qty [(1000, product_A, 1), (2000, product_A, - 2)])"
  by (simp add: add_all_def addItem_def updateQuantity_def removeItem_def new_item_def
      initial_cart_def getTotalItems_def call_qty_def)

subsection \<open>The effect of one addition\<close>





subsection \<open>Changing a quantity\<close>

text \<open>
  Claim C4. \<open>removeItem\<close> keeps exactly the lines of the other products, in their order
  and unchanged, and leaves \<open>isLoading\<close> alone. \<open>updateQuantity\<close> with a quantity
  \<open>\<le> 0\<close> leaves exactly the local state that \<open>removeItem\<close> leaves: the lines of the
  product are gone and every other line stays as it was. With a quantity \<open>\<ge> 1\<close> it
  keeps the number and order of the lines, gives every line of the product that quantity
  and changes nothing else.
\<close>

theorem updateQuantity_effect:
  "items (removeItem productId st)
     = filter (\<lambda>item. product_id item \<noteq> productId) (items st) \<and>
   isLoading (removeItem productId st) = isLoading st \<and>
   (qty \<le> 0 \<longrightarrow> updateQuantity productId qty st = removeItem productId st \<and>
                items (updateQuantity productId qty st)
                  = filter (\<lambda>item. product_id item \<noteq> productId) (items st) \<and>
                isLoading (updateQuantity productId qty st) = isLoading st \<and>
                productId \<notin> product_id ` set (items (updateQuantity productId qty st))) \<and>
   (1 \<le> qty \<longrightarrow>
      length (items (updateQuantity productId qty st)) = length (items st) \<and>
      (\<forall>i < length (items st).
         items (updateQuantity productId qty st) ! i =
           (if product_id (items st ! i) = productId
            then (items st ! i)\<lparr>quantity := qty\<rparr> else items st ! i)) \<and>
      isLoading (updateQuantity productId qty st) = isLoading st)"
  by (auto simp: updateQuantity_def removeItem_def)

theorem updateQuantity_effect_witness:
  "updateQuantity ''A'' 0 \<lparr>items = [line_A, line_B], isLoading = False\<rparr>
     = removeItem ''A'' \<lparr>items = [line_A, line_B], isLoading = False\<rparr> \<and>
   updateQuantity ''A'' (- 1) \<lparr>items = [line_A, line_B], isLoading = False\<rparr>
     = removeItem ''A'' \<lparr>items = [line_A, line_B], isLoading = False\<rparr> \<and>
   items (updateQuantity ''A'' 0 \<lparr>items = [line_A, line_B], isLoading = False\<rparr>) = [line_B] \<and>
   items (updateQuantity ''A'' (- 1) \<lparr>items = [line_A, line_B], isLoading = False\<rparr>) = [line_B] \<and>
   items (removeItem ''A'' \<lparr>items = [line_A, line_B], isLoading = False\<rparr>) = [line_B] \<and>
   ''A'' \<notin> product_id ` set (items (updateQuantity ''A'' 0 \<lparr>items = [line_A, line_B], isLoading = False\<rparr>)) \<and>
   items (updateQuantity ''A'' 4 \<lparr>items = [line_A, line_B], isLoading = False\<rparr>) ! 0
     = line_A\<lparr>quantity := 4\<rparr> \<and>
   items (updateQuantity ''A'' 4 \<lparr>items = [line_A, line_B], isLoading = False\<rparr>) ! 1 = line_B"
  using updateQuantity_effect[of "''A''" "\<lparr>items = [line_A, line_B], isLoading = False\<rparr>" 0]
    updateQuantity_effect[of "''A''" "\<lparr>items = [line_A, line_B], isLoading = False\<rparr>" "- 1"]
    updateQuantity_effect[of "''A''" "\<lparr>items = [line_A, line_B], isLoading = False\<rparr>" 4]
  by (simp add: line_A_def line_B_def)

subsection \<open>One line per product\<close>

lemma distinct_ids_apply:
  "distinct (map product_id (items st)) \<Longrightarrow>
   distinct (map product_id (items (apply_cart_op st op)))"
proof (cases op)
  case (AddItem now p qty)
  assume d: "distinct (map product_id (items st))"
  show ?thesis
  proof (cases "find (\<lambda>item. product_id item = prod_id p) (items st)")
    case None
    then have "prod_id p \<notin> product_id ` set (items st)" by (simp add: find_product_id_None)
    with d None show ?thesis by (simp add: AddItem addItem_def new_item_def)
  next
    case (Some e)
    have "map product_id (items (updateQuantity (prod_id p) q st)) = map product_id (items st)
          \<or> items (updateQuantity (prod_id p) q st) = filter (\<lambda>item. product_id item \<noteq> prod_id p) (items st)" for q
      by (simp add: updateQuantity_def removeItem_def o_def if_distrib[of product_id] cong: if_cong)
    then have "distinct (map product_id (items (updateQuantity (prod_id p) q st)))" for q
      using d by (metis distinct_map_filter)
    with Some show ?thesis by (simp add: AddItem addItem_def)
  qed
next
  case (UpdateQuantity pid q)
  assume d: "distinct (map product_id (items st))"
  have "map product_id (items (updateQuantity pid q st)) = map product_id (items st)
          \<or> items (updateQuantity pid q st) = filter (\<lambda>item. product_id item \<noteq> pid) (items st)"
    by (simp add: updateQuantity_def removeItem_def o_def if_distrib[of product_id] cong: if_cong)
  then show ?thesis using d by (metis UpdateQuantity apply_cart_op.simps(2) distinct_map_filter)
next
  case (RemoveItem pid)
  assume d: "distinct (map product_id (items st))"
  then show ?thesis by (simp add: RemoveItem distinct_map_filter)
next
  case ClearCart
  then show ?thesis by (simp add: clearCart_def)
qed


text \<open>
  Claim C10. Starting from the empty cart, after every sequence of \<open>addItem\<close>,
  \<open>updateQuantity\<close>, \<open>removeItem\<close> and \<open>clearCart\<close> the product ids of the cart lines are
  pairwise distinct: the cart holds at most one line per product id.
\<close>

theorem cart_one_line_per_product:
  "distinct (map product_id (items (run_cart_ops ops)))"
proof (induction ops rule: rev_induct)
  case Nil
  show ?case by (simp add: run_cart_ops_def initial_cart_def)
next
  case (snoc op ops)
  then show ?case using distinct_ids_apply[of "run_cart_ops ops" op]
    by (simp add: run_cart_ops_def)
qed


subsection \<open>Loading the server-side cart\<close>

lemma map_rows_Some:
  "\<forall>r \<in> set rows. products r \<noteq> None \<Longrightarrow>
   \<exists>its. map_rows rows = Some its \<and> length its = length rows \<and>
     (\<forall>i < length rows. cart_item_of_row (rows ! i) = Some (its ! i))"
proof (induction rows)
  case Nil
  show ?case by simp
next
  case (Cons r rs)
  then obtain its where its: "map_rows rs = Some its" "length its = length rs"
    "\<forall>i < length rs. cart_item_of_row (rs ! i) = Some (its ! i)" by auto
  from Cons.prems obtain pr where pr: "products r = Some pr" by auto
  then obtain item where item: "cart_item_of_row r = Some item"
    by (simp add: cart_item_of_row_def)
  have "\<forall>i < length (r # rs). cart_item_of_row ((r # rs) ! i) = Some ((item # its) ! i)"
    using its(3) item by (auto simp: nth_Cons split: nat.splits)
  with its item show ?case by simp
qed

text \<open>
  Claim C5, as amended. For a signed-in user, when the query resolves with the user's cart
  row and its items, each with its joined product, \<open>loadCart\<close> replaces the local items
  wholesale: one line per \<open>cart_items\<close> row, in order, with the row's id, product id,
  \<open>unit_price\<close> and quantity, the product's name and the URL of its first primary media
  entry; the result does not depend on the items held before, so nothing is merged. When
  the query resolves with no cart row, or is rejected, the local items stay as they were.
  Without a user nothing changes.
\<close>

theorem loadCart_effect:
  "(usr = Some u \<and> response = Resolved (Some c) \<and> cart_items c = Some rows \<and>
    (\<forall>r \<in> set rows. products r \<noteq> None) \<longrightarrow>
      length (items (loadCart usr response st)) = length rows \<and>
      (\<forall>i < length rows.
         Some (items (loadCart usr response st) ! i) = cart_item_of_row (rows ! i) \<and>
         item_id (items (loadCart usr response st) ! i) = row_id (rows ! i) \<and>
         product_id (items (loadCart usr response st) ! i) = row_product_id (rows ! i) \<and>
         price (items (loadCart usr response st) ! i) = unit_price (rows ! i) \<and>
         quantity (items (loadCart usr response st) ! i) = row_quantity (rows ! i) \<and>
         image_url (items (loadCart usr response st) ! i)
           = primary_media_url (the (products (rows ! i)))) \<and>
      loadCart usr response st = loadCart usr response (st\<lparr>items := other\<rparr>)) \<and>
   (usr = Some u \<and> (response = Rejected msg \<or> response = Resolved None) \<longrightarrow>
      items (loadCart usr response st) = items st) \<and>
   (usr = None \<longrightarrow> loadCart usr response st = st)"
proof (intro conjI impI)
  assume a: "usr = Some u \<and> response = Resolved (Some c) \<and> cart_items c = Some rows \<and>
    (\<forall>r \<in> set rows. products r \<noteq> None)"
  then obtain its where its: "map_rows rows = Some its" "length its = length rows"
    "\<forall>i < length rows. cart_item_of_row (rows ! i) = Some (its ! i)"
    using map_rows_Some by blast
  have l: "items (loadCart usr response st) = its"
    using a its(1) by (simp add: loadCart_def)
  show "length (items (loadCart usr response st)) = length rows"
    using l its(2) by simp
  show "\<forall>i < length rows.
         Some (items (loadCart usr response st) ! i) = cart_item_of_row (rows ! i) \<and>
         item_id (items (loadCart usr response st) ! i) = row_id (rows ! i) \<and>
         product_id (items (loadCart usr response st) ! i) = row_product_id (rows ! i) \<and>
         price (items (loadCart usr response st) ! i) = unit_price (rows ! i) \<and>
         quantity (items (loadCart usr response st) ! i) = row_quantity (rows ! i) \<and>
         image_url (items (loadCart usr response st) ! i)
           = primary_media_url (the (products (rows ! i)))"
  proof (intro allI impI)
    fix i assume i: "i < length rows"
    then have c: "cart_item_of_row (rows ! i) = Some (its ! i)" using its(3) by simp
    from i a have "products (rows ! i) \<noteq> None" by simp
    then obtain pr where pr: "products (rows ! i) = Some pr" by auto
    with c have "its ! i = \<lparr>item_id = row_id (rows ! i), product_id = row_product_id (rows ! i),
        item_name = products_name pr, price = unit_price (rows ! i),
        quantity = row_quantity (rows ! i), image_url = primary_media_url pr,
        variant_id = None, variant_name = None\<rparr>"
      by (simp add: cart_item_of_row_def)
    then show "Some (items (loadCart usr response st) ! i) = cart_item_of_row (rows ! i) \<and>
         item_id (items (loadCart usr response st) ! i) = row_id (rows ! i) \<and>
         product_id (items (loadCart usr response st) ! i) = row_product_id (rows ! i) \<and>
         price (items (loadCart usr response st) ! i) = unit_price (rows ! i) \<and>
         quantity (items (loadCart usr response st) ! i) = row_quantity (rows ! i) \<and>
         image_url (items (loadCart usr response st) ! i)
           = primary_media_url (the (products (rows ! i)))"
      using l c pr by simp
  qed
  show "loadCart usr response st = loadCart usr response (st\<lparr>items := other\<rparr>)"
    using a its(1) by (simp add: loadCart_def)
next
  assume "usr = Some u \<and> (response = Rejected msg \<or> response = Resolved None)"
  then show "items (loadCart usr response st) = items st"
    by (auto simp: loadCart_def)
next
  assume "usr = None"
  then show "loadCart usr response st = st" by (simp add: loadCart_def)
qed

theorem loadCart_effect_witness:
  "items (loadCart (Some user_1)
            (Resolved (Some \<lparr>cart_id = ''cart-1'', cart_items = Some [server_row_1]\<rparr>))
            \<lparr>items = [line_A], isLoading = False\<rparr>) ! 0
     = \<lparr>item_id = ''ci-1'', product_id = ''B'', item_name = ''Silk scarf'', price = 5,
        quantity = 4, image_url = Some ''https://cdn.example/b1.jpg'',
        variant_id = None, variant_name = None\<rparr> \<and>
   length (items (loadCart (Some user_1)
            (Resolved (Some \<lparr>cart_id = ''cart-1'', cart_items = Some [server_row_1]\<rparr>))
            \<lparr>items = [line_A], isLoading = False\<rparr>)) = 1 \<and>
   items (loadCart (Some user_1) (Rejected ''network'') \<lparr>items = [line_A], isLoading = False\<rparr>)
     = [line_A] \<and>
   loadCart None (Resolved None) \<lparr>items = [line_A], isLoading = False\<rparr>
     = \<lparr>items = [line_A], isLoading = False\<rparr>"
  using loadCart_effect[where usr = "Some user_1" and u = user_1
      and response = "Resolved (Some \<lparr>cart_id = ''cart-1'', cart_items = Some [server_row_1]\<rparr>)"
      and c = "\<lparr>cart_id = ''cart-1'', cart_items = Some [server_row_1]\<rparr>"
      and rows = "[server_row_1]" and st = "\<lparr>items = [line_A], isLoading = False\<rparr>"]
    loadCart_effect[where usr = "Some user_1" and u = user_1
      and response = "Rejected ''network''" and msg = "''network''"
      and st = "\<lparr>items = [line_A], isLoading = False\<rparr>"]
    loadCart_effect[where usr = None and response = "Resolved None"
      and st = "\<lparr>items = [line_A], isLoading = False\<rparr>"]
  by (simp add: server_row_1_def cart_item_of_row_def primary_media_url_def)

text \<open>
  Claim C5 as stated fails for a signed-in user who has no cart row on the server: the
  server-side cart is empty, yet the guest line stays in the local cart.
\<close>

theorem loadCart_effect_counterexample:
  "items (loadCart (Some user_1) (Resolved None) \<lparr>items = [line_A], isLoading = False\<rparr>)
     = [line_A] \<and>
   items (loadCart (Some user_1) (Resolved None) \<lparr>items = [line_A], isLoading = False\<rparr>) \<noteq> []"
  by (simp add: loadCart_def)

section \<open>Properties of the auth store\<close>

text \<open>
  Claim C9. For a signed-in user \<open>checkAdminStatus\<close> always completes with a store
  (never with an exception) that differs from the old one in \<open>isAdmin\<close> only, and
  \<open>isAdmin\<close> is true exactly when the query resolved without error with a profile row
  whose \<open>is_admin\<close> is true. In particular an absent row, a query error and a rejected
  query all give \<open>isAdmin = false\<close>.
\<close>

theorem checkAdminStatus_fails_closed:
  "auth_user st = Some u \<longrightarrow>
     (\<exists>st'. checkAdminStatus response st = Inr st' \<and>
        auth_user st' = auth_user st \<and> auth_isLoading st' = auth_isLoading st \<and>
        (isAdmin st' \<longleftrightarrow>
           (\<exists>row. response = Resolved \<lparr>q_data = Some row, q_error = None\<rparr> \<and>
                  is_admin row = Some True))) \<and>
     (response = Resolved \<lparr>q_data = None, q_error = None\<rparr> \<longrightarrow>
        checkAdminStatus response st = Inr (st\<lparr>isAdmin := False\<rparr>)) \<and>
     (response = Resolved \<lparr>q_data = d, q_error = Some e\<rparr> \<longrightarrow>
        checkAdminStatus response st = Inr (st\<lparr>isAdmin := False\<rparr>)) \<and>
     (response = Rejected msg \<longrightarrow>
        checkAdminStatus response st = Inr (st\<lparr>isAdmin := False\<rparr>))"
proof (intro impI conjI)
  assume u: "auth_user st = Some u"
  show "\<exists>st'. checkAdminStatus response st = Inr st' \<and>
        auth_user st' = auth_user st \<and> auth_isLoading st' = auth_isLoading st \<and>
        (isAdmin st' \<longleftrightarrow>
           (\<exists>row. response = Resolved \<lparr>q_data = Some row, q_error = None\<rparr> \<and>
                  is_admin row = Some True))"
  proof (cases response)
    case (Rejected m)
    with u show ?thesis by (simp add: checkAdminStatus_def checkAdminStatus_try_def)
  next
    case (Resolved r)
    obtain d e where r: "r = \<lparr>q_data = d, q_error = e\<rparr>" by (cases r) auto
    show ?thesis using u Resolved r
      by (cases e; cases d)
        (auto simp: checkAdminStatus_def checkAdminStatus_try_def split: option.splits)
  qed
next
  assume "auth_user st = Some u" "response = Resolved \<lparr>q_data = None, q_error = None\<rparr>"
  then show "checkAdminStatus response st = Inr (st\<lparr>isAdmin := False\<rparr>)"
    by (simp add: checkAdminStatus_def checkAdminStatus_try_def)
next
  assume "auth_user st = Some u" "response = Resolved \<lparr>q_data = d, q_error = Some e\<rparr>"
  then show "checkAdminStatus response st = Inr (st\<lparr>isAdmin := False\<rparr>)"
    by (simp add: checkAdminStatus_def checkAdminStatus_try_def)
next
  assume "auth_user st = Some u" "response = Rejected msg"
  then show "checkAdminStatus response st = Inr (st\<lparr>isAdmin := False\<rparr>)"
    by (simp add: checkAdminStatus_def checkAdminStatus_try_def)
qed

theorem checkAdminStatus_fails_closed_witness:
  "checkAdminStatus (Resolved \<lparr>q_data = None, q_error = None\<rparr>) signed_in_admin
     = Inr (signed_in_admin\<lparr>isAdmin := False\<rparr>) \<and>
   checkAdminStatus (Resolved \<lparr>q_data = None, q_error = Some ''permission denied''\<rparr>) signed_in_admin
     = Inr (signed_in_admin\<lparr>isAdmin := False\<rparr>) \<and>
   checkAdminStatus (Rejected ''network error'') signed_in_admin
     = Inr (signed_in_admin\<lparr>isAdmin := False\<rparr>) \<and>
   (\<exists>st'. checkAdminStatus (Resolved \<lparr>q_data = Some \<lparr>is_admin = Some True\<rparr>, q_error = None\<rparr>)
            signed_in_admin = Inr st' \<and> isAdmin st')"
proof -
  have u: "auth_user signed_in_admin = Some user_1" by (simp add: signed_in_admin_def)
  from checkAdminStatus_fails_closed[of signed_in_admin user_1
      "Resolved \<lparr>q_data = None, q_error = None\<rparr>"] u
  have a: "checkAdminStatus (Resolved \<lparr>q_data = None, q_error = None\<rparr>) signed_in_admin
     = Inr (signed_in_admin\<lparr>isAdmin := False\<rparr>)" by simp
  from checkAdminStatus_fails_closed[of signed_in_admin user_1
      "Resolved \<lparr>q_data = None, q_error = Some ''permission denied''\<rparr>" None "''permission denied''"] u
  have b: "checkAdminStatus (Resolved \<lparr>q_data = None, q_error = Some ''permission denied''\<rparr>)
             signed_in_admin = Inr (signed_in_admin\<lparr>isAdmin := False\<rparr>)" by simp
  from checkAdminStatus_fails_closed[of signed_in_admin user_1 "Rejected ''network error''"
      None "''e''" "''network error''"] u
  have c: "checkAdminStatus (Rejected ''network error'') signed_in_admin
     = Inr (signed_in_admin\<lparr>isAdmin := False\<rparr>)" by simp
  from checkAdminStatus_fails_closed[of signed_in_admin user_1
      "Resolved \<lparr>q_data = Some \<lparr>is_admin = Some True\<rparr>, q_error = None\<rparr>"] u
  have d: "\<exists>st'. checkAdminStatus (Resolved \<lparr>q_data = Some \<lparr>is_admin = Some True\<rparr>, q_error = None\<rparr>)
            signed_in_admin = Inr st' \<and> isAdmin st'" by auto
  from a b c d show ?thesis by blast
qed

section \<open>Properties of the image pipeline\<close>

subsection \<open>Validation before upload\<close>

lemma string_of_nat_5: "string_of_nat 5 = ''5''"
  by code_simp

text \<open>
  Claim C8. A file whose type is not one of the three allowed types, or whose size
  exceeds 5 MB, makes \<open>uploadProductImage\<close> return an error result with empty URL and
  path and leave the world as it was: no resize, no upload, no new storage object. A
  file of an allowed type with at most 5 MB passes both validations, and the upload goes
  on to the resize.
\<close>

theorem uploadProductImage_validation:
  "(file_type f \<notin> set ALLOWED_TYPES \<or> MAX_FILE_SIZE < file_size f \<longrightarrow>
      (\<exists>msg. fst (uploadProductImage env f productId index w)
               = \<lparr>result_url = [], result_path = [], result_error = Some msg\<rparr>) \<and>
      snd (uploadProductImage env f productId index w) = w \<and>
      \<not> isValid (validateImageFile f)) \<and>
   (file_type f \<in> set ALLOWED_TYPES \<and> file_size f \<le> MAX_FILE_SIZE \<longrightarrow>
      valid (validateFileUpload f) \<and> isValid (validateImageFile f) \<and>
      events (snd (uploadProductImage env f productId index w)) \<noteq> events w)"
proof (intro conjI impI)
  assume bad: "file_type f \<notin> set ALLOWED_TYPES \<or> MAX_FILE_SIZE < file_size f"
  then have nv: "\<not> valid (validateFileUpload f)"
    by (auto simp: validateFileUpload_def ALLOWED_TYPES_def MAX_FILE_SIZE_def Let_def)
  then show "\<exists>msg. fst (uploadProductImage env f productId index w)
               = \<lparr>result_url = [], result_path = [], result_error = Some msg\<rparr>"
    by (simp add: uploadProductImage_def failed_upload_def Let_def)
  from nv show "snd (uploadProductImage env f productId index w) = w"
    by (simp add: uploadProductImage_def Let_def)
  from bad show "\<not> isValid (validateImageFile f)"
    by (auto simp: validateImageFile_def)
next
  assume ok: "file_type f \<in> set ALLOWED_TYPES \<and> file_size f \<le> MAX_FILE_SIZE"
  then show v1: "valid (validateFileUpload f)"
    by (auto simp: validateFileUpload_def ALLOWED_TYPES_def MAX_FILE_SIZE_def Let_def)
  from ok show v2: "isValid (validateImageFile f)"
    by (auto simp: validateImageFile_def)
  from v1 v2 show "events (snd (uploadProductImage env f productId index w)) \<noteq> events w"
    by (auto simp: uploadProductImage_def Let_def split: awaited.splits upload_response.splits)
qed

theorem uploadProductImage_validation_witness:
  "uploadProductImage env_ok png_6MB ''p1'' 0 empty_world
     = (\<lparr>result_url = [], result_path = [],
         result_error = Some ''File validation failed: File size exceeds 5MB limit''\<rparr>, empty_world) \<and>
   valid (validateFileUpload jpeg_1MB) \<and> isValid (validateImageFile jpeg_1MB)"
proof -
  have a: "uploadProductImage env_ok png_6MB ''p1'' 0 empty_world
     = (\<lparr>result_url = [], result_path = [],
         result_error = Some ''File validation failed: File size exceeds 5MB limit''\<rparr>, empty_world)"
    by (simp add: uploadProductImage_def validateFileUpload_def png_6MB_def failed_upload_def string_of_nat_5)
  have "file_type jpeg_1MB \<in> set ALLOWED_TYPES \<and> file_size jpeg_1MB \<le> MAX_FILE_SIZE"
    by (simp add: jpeg_1MB_def ALLOWED_TYPES_def MAX_FILE_SIZE_def)
  with uploadProductImage_validation[of jpeg_1MB] a show ?thesis by blast
qed

subsection \<open>Resizing to the 1200 by 1200 box\<close>

lemma to_unsigned_long_nat: "to_unsigned_long (real n) = n"
  by (simp add: to_unsigned_long_def)

lemma to_unsigned_long_div: "to_unsigned_long (real a / real b) = a div b"
  by (simp add: to_unsigned_long_def floor_divide_of_nat_eq)

lemma scaled_less: "h < w \<Longrightarrow> (h * 1200) div w < (1200 :: nat)"
  by (simp add: less_mult_imp_div_less)

lemma resizeImage_wide:
  "h < w \<Longrightarrow> 1200 < w \<Longrightarrow> resizeImage w h 1200 1200 = (1200, (h * 1200) div w)"
proof -
  assume hw: "h < w" and big: "1200 < w"
  have "to_unsigned_long (real (h * 1200) / real w) = (h * 1200) div w"
    by (rule to_unsigned_long_div)
  moreover have "to_unsigned_long 1200 = 1200" by (simp add: to_unsigned_long_def)
  ultimately show ?thesis using hw big
    by (simp add: resizeImage_def resize_dimensions_def)
qed

lemma resizeImage_tall:
  "w \<le> h \<Longrightarrow> 1200 < h \<Longrightarrow> resizeImage w h 1200 1200 = ((w * 1200) div h, 1200)"
proof -
  assume wh: "w \<le> h" and big: "1200 < h"
  have "to_unsigned_long (real (w * 1200) / real h) = (w * 1200) div h"
    by (rule to_unsigned_long_div)
  moreover have "to_unsigned_long 1200 = 1200" by (simp add: to_unsigned_long_def)
  ultimately show ?thesis using wh big
    by (simp add: resizeImage_def resize_dimensions_def)
qed

lemma resizeImage_small:
  "w \<le> 1200 \<Longrightarrow> h \<le> 1200 \<Longrightarrow> resizeImage w h 1200 1200 = (w, h)"
proof -
  assume "w \<le> 1200" "h \<le> 1200"
  then show ?thesis
    by (simp add: resizeImage_def resize_dimensions_def to_unsigned_long_nat)
qed


lemma resize_dimensions_ratio:
  "fst (resize_dimensions w h 1200 1200) * real h = real w * snd (resize_dimensions w h 1200 1200)"
  by (simp add: resize_dimensions_def)

lemma resizeImage_floor:
  "resizeImage w h 1200 1200
     = (nat \<lfloor>fst (resize_dimensions w h 1200 1200)\<rfloor>, nat \<lfloor>snd (resize_dimensions w h 1200 1200)\<rfloor>)"
proof -
  consider "h < w" "1200 < w" | "w \<le> h" "1200 < h" | "w \<le> 1200" "h \<le> 1200"
    by linarith
  then show ?thesis
  proof cases
    case 1
    then have rd: "resize_dimensions w h 1200 1200 = (1200, real (h * 1200) / real w)"
      by (simp add: resize_dimensions_def)
    have a: "nat \<lfloor>fst (resize_dimensions w h 1200 1200)\<rfloor> = 1200"
      unfolding rd by simp
    have b: "nat \<lfloor>snd (resize_dimensions w h 1200 1200)\<rfloor> = (h * 1200) div w"
      unfolding rd snd_conv floor_divide_of_nat_eq by (rule nat_int)
    show ?thesis unfolding a b using 1 by (rule resizeImage_wide)
  next
    case 2
    then have rd: "resize_dimensions w h 1200 1200 = (real (w * 1200) / real h, 1200)"
      by (simp add: resize_dimensions_def)
    have a: "nat \<lfloor>snd (resize_dimensions w h 1200 1200)\<rfloor> = 1200"
      unfolding rd by simp
    have b: "nat \<lfloor>fst (resize_dimensions w h 1200 1200)\<rfloor> = (w * 1200) div h"
      unfolding rd fst_conv floor_divide_of_nat_eq by (rule nat_int)
    show ?thesis unfolding a b using 2 by (rule resizeImage_tall)
  next
    case 3
    then have rd: "resize_dimensions w h 1200 1200 = (real w, real h)"
      by (simp add: resize_dimensions_def)
    show ?thesis unfolding rd using 3 by (simp add: resizeImage_small)
  qed
qed

text \<open>
  Claim C7, as amended. With the bounds 1200 by 1200, the canvas \<open>resizeImage\<close> encodes
  has neither side above 1200; an image within the box keeps its dimensions; otherwise
  the longer side becomes 1200 and the other side is the proportional value rounded
  down to whole pixels, \<open>h * 1200 div w\<close> or \<open>w * 1200 div h\<close>. The values computed
  before the assignment to the canvas have exactly the image's aspect ratio; the canvas
  dimensions are their integer parts.
\<close>

theorem resizeImage_large:
  "max (fst (resizeImage w h 1200 1200)) (snd (resizeImage w h 1200 1200)) \<le> 1200 \<and>
   (w \<le> 1200 \<and> h \<le> 1200 \<longrightarrow> resizeImage w h 1200 1200 = (w, h)) \<and>
   (h < w \<and> 1200 < w \<longrightarrow> resizeImage w h 1200 1200 = (1200, (h * 1200) div w)) \<and>
   (w \<le> h \<and> 1200 < h \<longrightarrow> resizeImage w h 1200 1200 = ((w * 1200) div h, 1200)) \<and>
   fst (resize_dimensions w h 1200 1200) * real h = real w * snd (resize_dimensions w h 1200 1200) \<and>
   resizeImage w h 1200 1200
     = (nat \<lfloor>fst (resize_dimensions w h 1200 1200)\<rfloor>, nat \<lfloor>snd (resize_dimensions w h 1200 1200)\<rfloor>)"
proof (intro conjI impI)
  show "max (fst (resizeImage w h 1200 1200)) (snd (resizeImage w h 1200 1200)) \<le> 1200"
  proof -
    consider "h < w" "1200 < w" | "w \<le> h" "1200 < h" | "w \<le> 1200" "h \<le> 1200"
      by linarith
    then show ?thesis
    proof cases
      case 1
      with scaled_less[of h w] show ?thesis by (simp add: resizeImage_wide)
    next
      case 2
      have "(w * 1200) div h \<le> (h * 1200) div h"
        using 2 by (intro div_le_mono) simp
      also have "(h * 1200) div h = 1200" using 2 by simp
      finally show ?thesis using 2 by (simp add: resizeImage_tall)
    next
      case 3
      then show ?thesis by (simp add: resizeImage_small)
    qed
  qed
qed (simp_all add: resizeImage_small resizeImage_wide resizeImage_tall
    resize_dimensions_ratio resizeImage_floor [symmetric])

theorem resizeImage_large_witness:
  "resizeImage 800 600 1200 1200 = (800, 600) \<and>
   resizeImage 3000 1000 1200 1200 = (1200, 400) \<and>
   resizeImage 1000 4000 1200 1200 = (300, 1200) \<and>
   resizeImage 2000 1333 1200 1200 = (1200, 799)"
  using resizeImage_large[of 800 600] resizeImage_large[of 3000 1000]
    resizeImage_large[of 1000 4000] resizeImage_large[of 2000 1333]
  by simp

text \<open>
  Claim C7 as stated fails where the proportional side is not a whole number: an image
  of 2000 by 1333 gives a canvas of 1200 by 799, and 1200/799 is not 2000/1333.
\<close>

theorem resizeImage_large_counterexample:
  "resizeImage 2000 1333 1200 1200 = (1200, 799) \<and> (1200 :: real) / 799 \<noteq> 2000 / 1333"
  by (simp add: resizeImage_def resize_dimensions_def to_unsigned_long_def)

subsection \<open>The size of the URL cache\<close>

lemma digit_char_inj: "a < 10 \<Longrightarrow> b < 10 \<Longrightarrow> digit_char a = digit_char b \<Longrightarrow> a = b"
  by (simp add: digit_char_def char_of_eq_iff take_bit_nat_eq_self)

lemma string_of_nat_not_Nil: "string_of_nat n \<noteq> []"
  by (subst string_of_nat.simps) simp

lemma string_of_nat_inj: "string_of_nat m = string_of_nat n \<Longrightarrow> m = n"
proof (induction m arbitrary: n rule: string_of_nat.induct)
  case (1 m)
  show ?case
  proof (cases "m < 10")
    case True
    then have sm: "string_of_nat m = [digit_char m]" by (subst string_of_nat.simps) simp
    show ?thesis
    proof (cases "n < 10")
      case n: True
      then have "string_of_nat n = [digit_char n]" by (subst string_of_nat.simps) simp
      with sm "1.prems" True n show ?thesis by (auto dest: digit_char_inj)
    next
      case False
      then have "string_of_nat n = string_of_nat (n div 10) @ [digit_char (n mod 10)]"
        by (subst string_of_nat.simps) simp
      with sm "1.prems" string_of_nat_not_Nil[of "n div 10"] show ?thesis by simp
    qed
  next
    case False
    then have sm: "string_of_nat m = string_of_nat (m div 10) @ [digit_char (m mod 10)]"
      by (subst string_of_nat.simps) simp
    show ?thesis
    proof (cases "n < 10")
      case True
      then have "string_of_nat n = [digit_char n]" by (subst string_of_nat.simps) simp
      with sm "1.prems" string_of_nat_not_Nil[of "m div 10"] show ?thesis by simp
    next
      case n: False
      then have "string_of_nat n = string_of_nat (n div 10) @ [digit_char (n mod 10)]"
        by (subst string_of_nat.simps) simp
      with sm "1.prems" have e: "string_of_nat (m div 10) = string_of_nat (n div 10)"
        and d: "digit_char (m mod 10) = digit_char (n mod 10)" by simp_all
      from "1.IH"[OF False e] have "m div 10 = n div 10" .
      moreover from d have "m mod 10 = n mod 10" by (intro digit_char_inj) simp_all
      ultimately show ?thesis by (metis div_mult_mod_eq)
    qed
  qed
qed

lemma map_set_fresh: "k \<notin> fst ` set m \<Longrightarrow> map_set k v m = m @ [(k, v)]"
  by (induction m) auto

lemma length_map_set: "length (map_set k v m) \<le> Suc (length m)"
  by (induction m) auto

lemma imageCache_set_below_limit:
  "length cache \<le> 100 \<Longrightarrow> key \<notin> fst ` set cache \<Longrightarrow>
   imageCache_set key val cache = cache @ [(key, val)]"
  by (simp add: imageCache_set_def map_set_fresh)

lemma run_cache_ops_fill:
  "n \<le> 101 \<Longrightarrow>
   run_cache_ops (map (\<lambda>i. Cache_set (string_of_nat i) v) [0 ..< n])
     = map (\<lambda>i. (string_of_nat i, v)) [0 ..< n]"
proof (induction n)
  case 0
  show ?case by (simp add: run_cache_ops_def)
next
  case (Suc n)
  then have IH: "run_cache_ops (map (\<lambda>i. Cache_set (string_of_nat i) v) [0 ..< n])
     = map (\<lambda>i. (string_of_nat i, v)) [0 ..< n]" by simp
  have fresh: "string_of_nat n \<notin> fst ` set (map (\<lambda>i. (string_of_nat i, v)) [0 ..< n])"
    by (auto dest: string_of_nat_inj)
  have len: "length (map (\<lambda>i. (string_of_nat i, v)) [0 ..< n]) \<le> 100" using Suc.prems by simp
  show ?case
    using IH imageCache_set_below_limit[OF len fresh]
    by (simp add: run_cache_ops_def)
qed

text \<open>
  Claim C6 says that the cache never holds more than 100 entries. \<open>set\<close> evicts only
  when the size is already above 100, so the 101st distinct key is stored without any
  eviction: after 101 \<open>set\<close> calls with the keys 0 to 100 the cache holds all 101 keys.
\<close>

theorem imageCache_holds_101:
  "length (run_cache_ops fill_101) = 101 \<and>
   map fst (run_cache_ops fill_101) = map string_of_nat [0 ..< 101]"
  using run_cache_ops_fill[of 101 "''u''"]
  by (simp add: fill_101_def o_def)

text \<open>
  What does hold: the cache never exceeds 101 entries, and at 101 entries a new key
  evicts the oldest inserted one.
\<close>

lemma length_imageCache_set:
  "length cache \<le> 101 \<Longrightarrow> length (imageCache_set key val cache) \<le> 101"
proof (cases "length cache > 100")
  case False
  then show ?thesis using length_map_set[of key val cache]
    by (simp add: imageCache_set_def)
next
  case True
  assume "length cache \<le> 101"
  with True obtain k v rest where c: "cache = (k, v) # rest" and r: "length rest = 100"
    by (cases cache) auto
  have "length (map_delete k cache) \<le> 100"
    using r by (simp add: c map_delete_def) (metis length_filter_le)
  then show ?thesis
    using True length_map_set[of key val "map_delete k cache"]
    by (simp add: imageCache_set_def first_key_def c)
qed

lemma imageCache_size_le_101: "length (run_cache_ops ops) \<le> 101"
proof (induction ops rule: rev_induct)
  case Nil
  show ?case by (simp add: run_cache_ops_def)
next
  case (snoc op ops)
  then show ?case
    by (cases op) (simp_all add: run_cache_ops_def length_imageCache_set imageCache_clear_def)
qed

lemma imageCache_set_evicts_oldest:
  "length rest = 100 \<Longrightarrow> distinct (map fst ((k, v) # rest)) \<Longrightarrow>
   key \<notin> fst ` set ((k, v) # rest) \<Longrightarrow>
   imageCache_set key val ((k, v) # rest) = rest @ [(key, val)]"
proof -
  assume len: "length rest = 100" and d: "distinct (map fst ((k, v) # rest))"
    and fresh: "key \<notin> fst ` set ((k, v) # rest)"
  from d have "filter (\<lambda>(k', v'). k' \<noteq> k) rest = rest"
    by (force simp: filter_id_conv)
  then have "map_delete k ((k, v) # rest) = rest" by (simp add: map_delete_def)
  with len fresh show ?thesis
    by (simp add: imageCache_set_def first_key_def map_set_fresh)
qed

section \<open>Properties of the analytics counter\<close>

lemma int4pl_zero: "int4pl a (Some 0) = Inr a"
  using sint_ge[of "the a"] sint_lt[of "the a"]
  by (auto simp: int4pl_def split: option.splits)

lemma int4pl_in_range:
  "- (2 ^ 31) \<le> sint x + sint y \<Longrightarrow> sint x + sint y < 2 ^ 31 \<Longrightarrow>
   int4pl (Some x) (Some y) = Inr (Some (x + y))"
  by (simp add: int4pl_def)

lemma int4pl_out_of_range:
  "\<not> (- (2 ^ 31) \<le> sint x + sint y \<and> sint x + sint y < 2 ^ 31) \<Longrightarrow>
   int4pl (Some x) (Some y) = Inl Integer_out_of_range"
  by (simp add: int4pl_def)

lemma int4pl_null: "int4pl None b = Inr None"
  by (simp add: int4pl_def)

lemma sint_add_in_range:
  "- (2 ^ 31) \<le> sint x + sint y \<Longrightarrow> sint x + sint y < 2 ^ 31 \<Longrightarrow>
   sint (x + y) = sint x + sint y" for x y :: int4
  by (simp add: sint_word_ariths signed_take_bit_int_eq_self)

lemma metric_cases:
  "m \<in> set metric_names \<Longrightarrow>
   m = ''views'' \<or> m = ''likes'' \<or> m = ''saves'' \<or> m = ''shares'' \<or> m = ''cart_adds''
   \<or> m = ''purchases''"
  by (simp add: metric_names_def)

lemma upa_insert:
  assumes "m \<in> set metric_names" and "tbl (p, d) = None"
  shows "update_product_analytics d p m k tbl
           = Inr (tbl((p, d) \<mapsto> set_metric m (Some k) zero_row))"
  using metric_cases[OF assms(1)] assms(2)
  by (elim disjE)
    (simp_all add: update_product_analytics_def metric_case_def set_metric_def zero_row_def)

lemma upa_add:
  assumes "m \<in> set metric_names" and "tbl (p, d) = Some r" and "get_metric m r = Some v"
    and "- (2 ^ 31) \<le> sint v + sint k" and "sint v + sint k < 2 ^ 31"
  shows "update_product_analytics d p m k tbl
           = Inr (tbl((p, d) \<mapsto> set_metric m (Some (v + k)) r))"
  using metric_cases[OF assms(1)] assms(2-)
  by (elim disjE)
    (simp_all add: update_product_analytics_def metric_case_def set_metric_def get_metric_def
      int4pl_zero int4pl_in_range)

lemma upa_overflow:
  assumes "m \<in> set metric_names" and "tbl (p, d) = Some r" and "get_metric m r = Some v"
    and "\<not> (- (2 ^ 31) \<le> sint v + sint k \<and> sint v + sint k < 2 ^ 31)"
  shows "update_product_analytics d p m k tbl = Inl Integer_out_of_range"
  using metric_cases[OF assms(1)] assms(2,3) int4pl_out_of_range[OF assms(4)]
  by (elim disjE)
    (simp_all add: update_product_analytics_def metric_case_def get_metric_def int4pl_zero)

lemma set_get_metric: "set_metric m (get_metric m r) r = r"
  by (simp add: set_metric_def get_metric_def)

lemma upa_null:
  assumes "m \<in> set metric_names" and "tbl (p, d) = Some r" and "get_metric m r = None"
  shows "update_product_analytics d p m k tbl = Inr tbl"
proof -
  have "update_product_analytics d p m k tbl = Inr (tbl((p, d) \<mapsto> set_metric m None r))"
    using metric_cases[OF assms(1)] assms(2,3)
    by (elim disjE)
      (simp_all add: update_product_analytics_def metric_case_def get_metric_def set_metric_def
        int4pl_zero int4pl_null)
  moreover have "set_metric m None r = r"
    using set_get_metric[of m r] assms(3) by simp
  moreover have "tbl((p, d) \<mapsto> r) = tbl" using assms(2) by (rule map_upd_triv)
  ultimately show ?thesis by simp
qed

lemma upa_twice_views:
  assumes "tbl (p, d) = None"
  shows "update_twice d p ''views'' 1 tbl = Inr (tbl((p, d) \<mapsto> zero_row\<lparr>views := Some 2\<rparr>))"
proof -
  have 1: "update_product_analytics d p ''views'' 1 tbl
             = Inr (tbl((p, d) \<mapsto> zero_row\<lparr>views := Some 1\<rparr>))"
    using assms
    by (simp add: update_product_analytics_def metric_case_def zero_row_def)
  have 2: "update_product_analytics d p ''views'' 1 (tbl((p, d) \<mapsto> zero_row\<lparr>views := Some 1\<rparr>))
             = Inr (tbl((p, d) \<mapsto> zero_row\<lparr>views := Some 2\<rparr>))"
    by (simp add: update_product_analytics_def metric_case_def zero_row_def int4pl_zero int4pl_def)
  show ?thesis by (simp add: update_twice_def 1 2)
qed

text \<open>
  Claim C1, as amended. Let \<open>m\<close> be one of the six metric names. If the table has no row
  for the product and the day, \<open>update_product_analytics\<close> inserts one with column \<open>m\<close>
  set to \<open>k\<close> and the other five counters zero. If it has a row whose column \<open>m\<close> holds
  a value \<open>v\<close> with \<open>v + k\<close> in the 32-bit range, the call sets column \<open>m\<close> to \<open>v + k\<close>
  and changes nothing else. If \<open>v + k\<close> is out of range the call fails and the table is
  unchanged; if column \<open>m\<close> is \<open>NULL\<close> it stays \<open>NULL\<close>. Two calls with \<open>'views'\<close> and
  1 on a day without a row leave a row with \<open>views = 2\<close> and the other counters zero.
\<close>

theorem update_product_analytics_upsert:
  assumes "m \<in> set metric_names"
  shows
    "(tbl (p, d) = None \<longrightarrow>
        update_product_analytics d p m k tbl
          = Inr (tbl((p, d) \<mapsto> set_metric m (Some k) zero_row))) \<and>
     (tbl (p, d) = Some r \<and> get_metric m r = Some v \<and>
      - (2 ^ 31) \<le> sint v + sint k \<and> sint v + sint k < 2 ^ 31 \<longrightarrow>
        update_product_analytics d p m k tbl
          = Inr (tbl((p, d) \<mapsto> set_metric m (Some (v + k)) r)) \<and>
        sint (v + k) = sint v + sint k) \<and>
     (tbl (p, d) = Some r \<and> get_metric m r = Some v \<and>
      \<not> (- (2 ^ 31) \<le> sint v + sint k \<and> sint v + sint k < 2 ^ 31) \<longrightarrow>
        update_product_analytics d p m k tbl = Inl Integer_out_of_range) \<and>
     (tbl (p, d) = Some r \<and> get_metric m r = None \<longrightarrow>
        update_product_analytics d p m k tbl = Inr tbl) \<and>
     (tbl (p, d) = None \<longrightarrow>
        update_twice d p ''views'' 1 tbl
          = Inr (tbl((p, d) \<mapsto> zero_row\<lparr>views := Some 2\<rparr>)))"
proof (intro conjI impI)
  assume "tbl (p, d) = None"
  then show "update_product_analytics d p m k tbl
          = Inr (tbl((p, d) \<mapsto> set_metric m (Some k) zero_row))"
    by (rule upa_insert[OF assms])
next
  assume a: "tbl (p, d) = Some r \<and> get_metric m r = Some v \<and>
      - (2 ^ 31) \<le> sint v + sint k \<and> sint v + sint k < 2 ^ 31"
  then show "update_product_analytics d p m k tbl
          = Inr (tbl((p, d) \<mapsto> set_metric m (Some (v + k)) r))"
    by (intro upa_add[OF assms]) simp_all
  from a show "sint (v + k) = sint v + sint k"
    by (intro sint_add_in_range) simp_all
next
  assume "tbl (p, d) = Some r \<and> get_metric m r = Some v \<and>
      \<not> (- (2 ^ 31) \<le> sint v + sint k \<and> sint v + sint k < 2 ^ 31)"
  then show "update_product_analytics d p m k tbl = Inl Integer_out_of_range"
    by (intro upa_overflow[OF assms, where r = r and v = v]) simp_all
next
  assume "tbl (p, d) = Some r \<and> get_metric m r = None"
  then show "update_product_analytics d p m k tbl = Inr tbl"
    by (intro upa_null[OF assms, where r = r]) simp_all
next
  assume "tbl (p, d) = None"
  then show "update_twice d p ''views'' 1 tbl
          = Inr (tbl((p, d) \<mapsto> zero_row\<lparr>views := Some 2\<rparr>))"
    by (rule upa_twice_views)
qed

theorem update_product_analytics_upsert_witness:
  "update_product_analytics 20000 ''p1'' ''views'' 1 Map.empty
     = Inr [(''p1'', 20000) \<mapsto> zero_row\<lparr>views := Some 1\<rparr>] \<and>
   update_product_analytics 20000 ''p1'' ''likes'' 3 [(''p1'', 20000) \<mapsto> row_5]
     = Inr [(''p1'', 20000) \<mapsto> row_5\<lparr>likes := Some 10\<rparr>] \<and>
   update_twice 20000 ''p1'' ''views'' 1 Map.empty
     = Inr [(''p1'', 20000) \<mapsto> zero_row\<lparr>views := Some 2\<rparr>]"
proof -
  have m: "''views'' \<in> set metric_names" "''likes'' \<in> set metric_names"
    by (simp_all add: metric_names_def)
  have a: "update_product_analytics 20000 ''p1'' ''views'' 1 Map.empty
     = Inr [(''p1'', 20000) \<mapsto> zero_row\<lparr>views := Some 1\<rparr>]"
    using update_product_analytics_upsert[OF m(1), of Map.empty "''p1''" 20000 1]
    by (simp add: set_metric_def)
  have b: "update_product_analytics 20000 ''p1'' ''likes'' 3 [(''p1'', 20000) \<mapsto> row_5]
     = Inr [(''p1'', 20000) \<mapsto> row_5\<lparr>likes := Some 10\<rparr>]"
    using update_product_analytics_upsert[OF m(2), of "[(''p1'', 20000) \<mapsto> row_5]" "''p1''" 20000 3
        row_5 7]
    by (simp add: set_metric_def get_metric_def row_5_def)
  have c: "update_twice 20000 ''p1'' ''views'' 1 Map.empty
     = Inr [(''p1'', 20000) \<mapsto> zero_row\<lparr>views := Some 2\<rparr>]"
    using update_product_analytics_upsert[OF m(1), of Map.empty "''p1''" 20000]
    by simp
  from a b c show ?thesis by blast
qed

text \<open>
  Claim C1 as stated fails in two states of the table. A call with the increment
  2147483647 on an empty table inserts that value; a further call with increment 1 then
  fails with \<open>integer out of range\<close> instead of adding. And a row whose \<open>views\<close> is
  \<open>NULL\<close> keeps \<open>NULL\<close> when 1 is added.
\<close>

theorem update_product_analytics_upsert_counterexample:
  "update_product_analytics 20000 ''p1'' ''views'' 2147483647 Map.empty
     = Inr [(''p1'', 20000) \<mapsto> zero_row\<lparr>views := Some 2147483647\<rparr>] \<and>
   update_product_analytics 20000 ''p1'' ''views'' 1
       [(''p1'', 20000) \<mapsto> zero_row\<lparr>views := Some 2147483647\<rparr>]
     = Inl Integer_out_of_range \<and>
   update_product_analytics 20000 ''p1'' ''views'' 1 [(''p1'', 20000) \<mapsto> zero_row\<lparr>views := None\<rparr>]
     = Inr [(''p1'', 20000) \<mapsto> zero_row\<lparr>views := None\<rparr>]"
  by (simp add: update_product_analytics_def metric_case_def zero_row_def int4pl_def)

end
